theory Spec2Isabelle
  imports Complex_Main "HOL-Library.AList" "HOL-Library.Log_Nat"
begin

section \<open>Casino bot: wager sessions, cashout valuation and the expiration sweeper\<close>

text \<open>
  A shallow embedding of the session engine of \<^verbatim>\<open>main.py\<close>.  Amounts of money are
  Python floats in the source.  The handlers are modelled on exact rationals, which is
  enough for who is paid, what is deleted and how values compare; the cashout valuator
  is given a second time on binary floats, for the amounts it returns to the cent.
  Points, roll counts and user ids are Python integers (\<^typ>\<open>int\<close>); instants
  (\<^verbatim>\<open>datetime\<close> values) are rational seconds since the epoch.
\<close>

type_synonym money = rat
type_synonym user_id = int
type_synonym instant = rat

subsection \<open>Rounding to cents\<close>

text \<open>
  \<^verbatim>\<open>round(x, 2)\<close>: the nearest multiple of one cent, a tie going to the even
  neighbour (Python rounds half to even).
\<close>

definition round_half_even :: "rat \<Rightarrow> int" where
  "round_half_even y =
     (let f = \<lfloor>y\<rfloor>; d = y - of_int f
      in if d < 1 / 2 then f
         else if 1 / 2 < d then f + 1
         else if even f then f else f + 1)"

definition py_round2 :: "rat \<Rightarrow> rat" where
  "py_round2 x = of_int (round_half_even (x * 100)) / 100"

subsection \<open>The cashout valuator\<close>

text \<open>
  \<^verbatim>\<open>calculate_cashout(self, p_pts, b_pts, target_pts, wager)\<close>, with the source's
  table of probabilities and its default of one half.
\<close>

definition calculate_cashout :: "int \<Rightarrow> int \<Rightarrow> int \<Rightarrow> money \<Rightarrow> money" where
  "calculate_cashout p_pts b_pts target_pts wager =
     (if p_pts \<ge> target_pts then wager * 2
      else if b_pts \<ge> target_pts then 0
      else
        let needed_p = target_pts - p_pts;
            needed_b = target_pts - b_pts;
            prob =
              (if needed_p = 1 \<and> needed_b = 1 then 1 / 2
               else if needed_p = 1 \<and> needed_b = 2 then 3 / 4
               else if needed_p = 1 \<and> needed_b = 3 then 7 / 8
               else if needed_p = 2 \<and> needed_b = 1 then 1 / 4
               else if needed_p = 2 \<and> needed_b = 2 then 1 / 2
               else if needed_p = 2 \<and> needed_b = 3 then 11 / 16
               else if needed_p = 3 \<and> needed_b = 1 then 1 / 8
               else if needed_p = 3 \<and> needed_b = 2 then 5 / 16
               else if needed_p = 3 \<and> needed_b = 3 then 1 / 2
               else 1 / 2);
            cashout_val = (prob * (wager * 2)) * (95 / 100)
        in max 0 (py_round2 cashout_val))"

text \<open>
  The specification's model of the remaining series: each round is a fair coin, the
  self side needs \<open>a\<close> more points and the opponent \<open>b\<close>.  Written from the
  specification's recurrence, for comparison with the table above.
\<close>

fun spec_win_prob :: "nat \<Rightarrow> nat \<Rightarrow> rat" where
  "spec_win_prob 0 b = 1"
| "spec_win_prob (Suc a) 0 = 0"
| "spec_win_prob (Suc a) (Suc b) =
     1 / 2 * spec_win_prob a (Suc b) + 1 / 2 * spec_win_prob (Suc a) b"

definition spec_cashout :: "int \<Rightarrow> int \<Rightarrow> int \<Rightarrow> money \<Rightarrow> money" where
  "spec_cashout p_pts b_pts target_pts wager =
     py_round2 (spec_win_prob (nat (target_pts - p_pts)) (nat (target_pts - b_pts))
                * 2 * wager * (95 / 100))"


text \<open>The source's table on its own, as a function of the two remaining needs.\<close>

definition table_prob :: "int \<Rightarrow> int \<Rightarrow> rat" where
  "table_prob needed_p needed_b =
     (if needed_p = 1 \<and> needed_b = 1 then 1 / 2
      else if needed_p = 1 \<and> needed_b = 2 then 3 / 4
      else if needed_p = 1 \<and> needed_b = 3 then 7 / 8
      else if needed_p = 2 \<and> needed_b = 1 then 1 / 4
      else if needed_p = 2 \<and> needed_b = 2 then 1 / 2
      else if needed_p = 2 \<and> needed_b = 3 then 11 / 16
      else if needed_p = 3 \<and> needed_b = 1 then 1 / 8
      else if needed_p = 3 \<and> needed_b = 2 then 5 / 16
      else if needed_p = 3 \<and> needed_b = 3 then 1 / 2
      else 1 / 2)"


subsection \<open>The valuator on binary floats\<close>

text \<open>
  A Python float is an IEEE double.  A finite double is the rational it denotes;
  \<open>nearest_double x\<close> is the double nearest to \<open>x\<close>, a tie going to the even
  significand: 53 bits of significand above \<open>2 powi (- 1022)\<close>, the fixed spacing
  \<open>2 powi (- 1074)\<close> below.  Overflow to infinity is not modelled.
\<close>

definition ilog2 :: "rat \<Rightarrow> int" where
  "ilog2 x =
     (let (n, d) = quotient_of x; k = bitlen n - bitlen d
      in if 2 powi k \<le> x then k else k - 1)"

definition nearest_double :: "rat \<Rightarrow> rat" where
  "nearest_double x =
     (if x = 0 then 0
      else let e = max (ilog2 \<bar>x\<bar>) (- 1022); ulp = 2 powi (e - 52)
           in of_int (round_half_even (x / ulp)) * ulp)"

text \<open>\<^verbatim>\<open>a * b\<close> on floats: the exact product, rounded once.\<close>

definition fmul :: "rat \<Rightarrow> rat \<Rightarrow> rat" where
  "fmul a b = nearest_double (a * b)"

text \<open>
  \<^verbatim>\<open>round(x, 2)\<close> on a float: the exact value of \<open>x\<close> is rounded to the nearest
  multiple of one cent, half to even, and the decimal result is read back as a double.
\<close>

definition float_round2 :: "rat \<Rightarrow> rat" where
  "float_round2 x = nearest_double (of_int (round_half_even (x * 100)) / 100)"

text \<open>
  \<^verbatim>\<open>calculate_cashout\<close> once more, every operation as the interpreter performs it.
  The probabilities of the table are exact in binary; \<^verbatim>\<open>0.95\<close> is not.
\<close>

definition calculate_cashout_float :: "int \<Rightarrow> int \<Rightarrow> int \<Rightarrow> rat \<Rightarrow> rat" where
  "calculate_cashout_float p_pts b_pts target_pts wager =
     (if p_pts \<ge> target_pts then fmul wager 2
      else if b_pts \<ge> target_pts then 0
      else
        let needed_p = target_pts - p_pts;
            needed_b = target_pts - b_pts;
            prob =
              (if needed_p = 1 \<and> needed_b = 1 then 1 / 2
               else if needed_p = 1 \<and> needed_b = 2 then 3 / 4
               else if needed_p = 1 \<and> needed_b = 3 then 7 / 8
               else if needed_p = 2 \<and> needed_b = 1 then 1 / 4
               else if needed_p = 2 \<and> needed_b = 2 then 1 / 2
               else if needed_p = 2 \<and> needed_b = 3 then 11 / 16
               else if needed_p = 3 \<and> needed_b = 1 then 1 / 8
               else if needed_p = 3 \<and> needed_b = 2 then 5 / 16
               else if needed_p = 3 \<and> needed_b = 3 then 1 / 2
               else 1 / 2);
            cashout_val = fmul (fmul prob (fmul wager 2)) (nearest_double (95 / 100))
        in max 0 (float_round2 cashout_val))"

text \<open>
  The specification's formula \<^verbatim>\<open>round(p * 2 * wager * 0.95, 2)\<close> on floats, the product
  taken from left to right as Python does, for a probability \<open>p\<close>.
\<close>

definition spec_formula_float :: "rat \<Rightarrow> rat \<Rightarrow> rat" where
  "spec_formula_float p wager =
     float_round2 (fmul (fmul (fmul p 2) wager) (nearest_double (95 / 100)))"

definition spec_cashout_float :: "int \<Rightarrow> int \<Rightarrow> int \<Rightarrow> rat \<Rightarrow> rat" where
  "spec_cashout_float p_pts b_pts target_pts wager =
     spec_formula_float
       (spec_win_prob (nat (target_pts - p_pts)) (nat (target_pts - b_pts))) wager"

subsection \<open>Strings: decimal numbers, prefixes, splitting at underscores\<close>

datatype py_error = KeyError | DatabaseError

definition digit_char :: "nat \<Rightarrow> char" where
  "digit_char d = ''0123456789'' ! d"

function str_nat :: "nat \<Rightarrow> string" where
  "str_nat n = (if n < 10 then [digit_char n] else str_nat (n div 10) @ [digit_char (n mod 10)])"
  by pat_completeness auto
termination
  by (relation "measure id") auto

declare str_nat.simps [simp del]

text \<open>\<^verbatim>\<open>str(i)\<close> for a Python integer.\<close>

definition str_int :: "int \<Rightarrow> string" where
  "str_int i = (if i < 0 then CHR ''-'' # str_nat (nat (- i)) else str_nat (nat i))"

text \<open>\<^verbatim>\<open>int(x)\<close> for a float: truncation towards zero.\<close>

definition py_int :: "rat \<Rightarrow> int" where
  "py_int x = (if 0 \<le> x then \<lfloor>x\<rfloor> else \<lceil>x\<rceil>)"

text \<open>\<^verbatim>\<open>s.startswith(p)\<close>.\<close>

fun startswith :: "string \<Rightarrow> string \<Rightarrow> bool" where
  "startswith s [] = True"
| "startswith [] (p # ps) = False"
| "startswith (c # cs) (p # ps) = (c = p \<and> startswith cs ps)"

text \<open>\<^verbatim>\<open>s.split('_')\<close>.\<close>

fun split_us :: "string \<Rightarrow> string list" where
  "split_us [] = [[]]"
| "split_us (c # cs) =
     (if c = CHR ''_'' then [] # split_us cs
      else (case split_us cs of [] \<Rightarrow> [[c]] | x # xs \<Rightarrow> (c # x) # xs))"

definition is_digit :: "char \<Rightarrow> bool" where
  "is_digit c = (c \<in> set ''0123456789'')"

definition is_decimal :: "string \<Rightarrow> bool" where
  "is_decimal s =
     (case s of
        [] \<Rightarrow> False
      | c # cs \<Rightarrow> if c = CHR ''-'' then cs \<noteq> [] \<and> list_all is_digit cs
                 else list_all is_digit (c # cs))"

text \<open>
  The session-id contract as the specification words it: three fields separated by
  underscores, the kind one of \<open>open\<close>, \<open>pvp\<close>, \<open>bot\<close>, then the creator id and the
  creation time in epoch seconds.
\<close>

definition spec_session_id_format :: "string \<Rightarrow> bool" where
  "spec_session_id_format s =
     (case split_us s of
        [kind, creator, epoch] \<Rightarrow>
          kind \<in> {''open'', ''pvp'', ''bot''} \<and> is_decimal creator \<and> is_decimal epoch
      | _ \<Rightarrow> False)"

subsection \<open>Sessions, the pending store and the ledger\<close>

text \<open>
  The emoji of a game, one of the six values of the source's \<^verbatim>\<open>emoji_map\<close>.
\<close>

datatype emoji = Dice | Darts | Basketball | Soccer | Bowling | Coin

text \<open>
  A session is a Python dict.  Each key the modelled code reads is a field: \<open>None\<close> is
  an absent key (or the value \<^verbatim>\<open>None\<close>), and a flag that the source only tests for
  truth is a \<^typ>\<open>bool\<close>, absent meaning false.  Keys that only feed message texts
  (\<^verbatim>\<open>type\<close>, \<^verbatim>\<open>game\<close>, \<^verbatim>\<open>chat_id\<close>, \<^verbatim>\<open>message_id\<close>, \<^verbatim>\<open>challenger_roll\<close>)
  are left out.
\<close>

record challenge =
  player :: "user_id option"
  challenger :: "user_id option"
  opponent :: "user_id option"
  wager :: "money option"
  emoji :: "emoji option"
  rolls :: "int option"
  mode :: "string option"
  pts :: "int option"
  p_pts :: "int option"
  b_pts :: "int option"
  p_rolls :: "int list option"
  cur_rolls :: "int option"
  emoji_wait :: "instant option"
  created_at :: "instant option"
  wager_deducted :: bool
  waiting_for_emoji :: bool
  waiting_for_cashout :: bool
  p1_pts :: "int option"
  p2_pts :: "int option"
  p1_rolls :: "int list option"
  p2_rolls :: "int list option"
  waiting_p1 :: bool
  waiting_p2 :: bool
  p1_deducted :: bool
  p2_deducted :: bool
  waiting_for_challenger_emoji :: bool
  emoji_wait_started :: "instant option"

text \<open>The empty dict \<^verbatim>\<open>{}\<close>: no key present.\<close>

definition no_keys :: challenge where
  "no_keys =
     \<lparr>player = None, challenger = None, opponent = None, wager = None, emoji = None,
      rolls = None, mode = None, pts = None, p_pts = None, b_pts = None, p_rolls = None,
      cur_rolls = None, emoji_wait = None, created_at = None, wager_deducted = False,
      waiting_for_emoji = False, waiting_for_cashout = False, p1_pts = None, p2_pts = None,
      p1_rolls = None, p2_rolls = None, waiting_p1 = False, waiting_p2 = False,
      p1_deducted = False, p2_deducted = False, waiting_for_challenger_emoji = False,
      emoji_wait_started = None\<rparr>"

text \<open>
  The bot's state: \<^verbatim>\<open>self.pending_pvp\<close>, a dict in insertion order; the users'
  balances (\<^verbatim>\<open>get_user\<close> creates a missing user, so every id has a balance); the
  house balance; and the configured expiration window.  The store and its persisted
  copy are one and the same here.
\<close>

record state =
  pending_pvp :: "(string \<times> challenge) list"
  balance :: "user_id \<Rightarrow> money"
  house_balance :: money
  expiration_seconds :: rat

definition credit :: "state \<Rightarrow> user_id \<Rightarrow> money \<Rightarrow> state" where
  "credit st uid amount = st\<lparr>balance := (balance st)(uid := balance st uid + amount)\<rparr>"

definition update_house_balance :: "state \<Rightarrow> money \<Rightarrow> state" where
  "update_house_balance st change = st\<lparr>house_balance := house_balance st + change\<rparr>"

text \<open>\<^verbatim>\<open>d.get(k, default)\<close> on an optional field.\<close>

definition get_or :: "'a option \<Rightarrow> 'a \<Rightarrow> 'a" where
  "get_or v dflt = (case v of None \<Rightarrow> dflt | Some x \<Rightarrow> x)"

text \<open>
  What a handler reports back to the chat, or the exception that ended it.  A handler
  that raises keeps the ledger and store writes it made before the exception.  The
  branches of \<^verbatim>\<open>button_callback\<close> are modelled from the point where the branch is
  entered: the checks in front of all of them (a button pressed before, a button that
  belongs to another user) and the statistics and transaction log are left out.
\<close>

datatype outcome =
  Rejected | Silent | Created string | Accepted | Cancelled | RoundStarted
  | SeriesWon | SeriesLost | NextRound money | SeriesSettled user_id
  | CashedOut money | Raised py_error

definition set_challenge :: "state \<Rightarrow> string \<Rightarrow> challenge \<Rightarrow> state" where
  "set_challenge st cid ch = st\<lparr>pending_pvp := AList.update cid ch (pending_pvp st)\<rparr>"

definition del_challenge :: "state \<Rightarrow> string \<Rightarrow> state" where
  "del_challenge st cid = st\<lparr>pending_pvp := AList.delete cid (pending_pvp st)\<rparr>"

subsection \<open>Creating sessions\<close>

definition emoji_map :: "string \<Rightarrow> emoji" where
  "emoji_map game =
     (if game = ''dice'' then Dice else if game = ''darts'' then Darts
      else if game = ''basketball'' then Basketball else if game = ''soccer'' then Soccer
      else if game = ''bowling'' then Bowling else if game = ''coinflip'' then Coin
      else Dice)"


text \<open>\<^verbatim>\<open>start_generic_v2_bot\<close>: one active bot series per player, wager taken at once.\<close>

definition start_generic_v2_bot ::
  "state \<Rightarrow> user_id \<Rightarrow> string \<Rightarrow> money \<Rightarrow> int \<Rightarrow> string \<Rightarrow> int \<Rightarrow> instant \<Rightarrow> outcome \<times> state" where
  "start_generic_v2_bot st user_id game wager' rolls' mode' pts' now =
     (if list_ex (\<lambda>(active_cid, active_challenge).
            startswith active_cid ''v2_bot_'' \<and> player active_challenge = Some user_id)
          (pending_pvp st)
      then (Rejected, st)
      else if wager' > balance st user_id then (Rejected, st)
      else
        let st1 = credit st user_id (- wager');
            cid = ''v2_bot_'' @ game @ ''_'' @ str_int user_id @ ''_'' @ str_int (py_int now);
            ch = no_keys\<lparr>player := Some user_id, wager := Some wager',
                   emoji := Some (emoji_map game), rolls := Some rolls', mode := Some mode',
                   pts := Some pts', p_pts := Some 0, b_pts := Some 0, p_rolls := Some [],
                   cur_rolls := Some 0, emoji_wait := Some now, wager_deducted := True,
                   waiting_for_emoji := False\<rparr>
        in (Created cid, set_challenge st1 cid ch))"

text \<open>
  \<^verbatim>\<open>create_emoji_pvp_challenge\<close>, the creator of the open PvP challenges of darts,
  basketball, soccer and bowling: the same as the dice one, under
  \<^verbatim>\<open><game_type>_open_<user>_<epoch>\<close>.
\<close>

definition create_emoji_pvp_challenge ::
  "state \<Rightarrow> user_id \<Rightarrow> money \<Rightarrow> string \<Rightarrow> emoji \<Rightarrow> instant \<Rightarrow> outcome \<times> state" where
  "create_emoji_pvp_challenge st user_id wager' game_type e now =
     (if wager' > balance st user_id then (Rejected, st)
      else
        let st1 = credit st user_id (- wager');
            challenge_id = game_type @ ''_open_'' @ str_int user_id @ ''_''
                           @ str_int (py_int now);
            ch = no_keys\<lparr>challenger := Some user_id, opponent := None, wager := Some wager',
                   emoji := Some e, waiting_for_challenger_emoji := False,
                   created_at := Some now\<rparr>
        in (Created challenge_id, set_challenge st1 challenge_id ch))"

text \<open>
  \<^verbatim>\<open>accept_emoji_pvp_challenge\<close>: within 300 seconds of its creation another user joins an
  open challenge and pays; the challenge then waits for its challenger's roll.
\<close>

definition accept_emoji_pvp_challenge ::
  "state \<Rightarrow> string \<Rightarrow> user_id \<Rightarrow> instant \<Rightarrow> outcome \<times> state" where
  "accept_emoji_pvp_challenge st challenge_id acceptor_id now =
     (case map_of (pending_pvp st) challenge_id of
        None \<Rightarrow> (Rejected, st)
      | Some ch \<Rightarrow>
          if created_at ch \<noteq> None \<and> now - the (created_at ch) > 300 then (Rejected, st)
          else
            (case (wager ch, challenger ch, emoji ch) of
               (Some w, Some challenger_id, Some e) \<Rightarrow>
                 if acceptor_id = challenger_id then (Rejected, st)
                 else if w > balance st acceptor_id then (Rejected, st)
                 else
                   let st1 = credit st acceptor_id (- w);
                       ch1 = ch\<lparr>opponent := Some acceptor_id,
                                waiting_for_challenger_emoji := True,
                                waiting_for_emoji := False,
                                emoji_wait_started := Some now\<rparr>
                   in (Accepted, set_challenge st1 challenge_id ch1)
             | _ \<Rightarrow> (Raised KeyError, st)))"

text \<open>
  \<^verbatim>\<open>dice_vs_bot\<close>, \<^verbatim>\<open>darts_vs_bot\<close>, \<^verbatim>\<open>basketball_vs_bot\<close>, \<^verbatim>\<open>soccer_vs_bot\<close> and
  \<^verbatim>\<open>bowling_vs_bot\<close> differ in the game and its emoji only: a series of one roll to one
  point under \<^verbatim>\<open>v2_bot_<user>_<epoch>\<close>.
\<close>

definition vs_bot :: "emoji \<Rightarrow> state \<Rightarrow> user_id \<Rightarrow> money \<Rightarrow> instant \<Rightarrow> outcome \<times> state" where
  "vs_bot e st user_id wager' now =
     (if wager' > balance st user_id then (Rejected, st)
      else
        let st1 = credit st user_id (- wager');
            game_id = ''v2_bot_'' @ str_int user_id @ ''_'' @ str_int (py_int now);
            game_state =
              no_keys\<lparr>mode := Some ''normal'', rolls := Some 1, pts := Some 1,
                p_pts := Some 0, b_pts := Some 0, p_rolls := Some [], cur_rolls := Some 0,
                wager := Some wager', wager_deducted := True, emoji := Some e,
                player := Some user_id, emoji_wait := Some now, waiting_for_emoji := True,
                created_at := Some now\<rparr>
        in (Created game_id, set_challenge st1 game_id game_state))"

definition dice_vs_bot :: "state \<Rightarrow> user_id \<Rightarrow> money \<Rightarrow> instant \<Rightarrow> outcome \<times> state" where
  "dice_vs_bot = vs_bot Dice"

definition darts_vs_bot :: "state \<Rightarrow> user_id \<Rightarrow> money \<Rightarrow> instant \<Rightarrow> outcome \<times> state" where
  "darts_vs_bot = vs_bot Darts"

definition basketball_vs_bot :: "state \<Rightarrow> user_id \<Rightarrow> money \<Rightarrow> instant \<Rightarrow> outcome \<times> state" where
  "basketball_vs_bot = vs_bot Basketball"

definition soccer_vs_bot :: "state \<Rightarrow> user_id \<Rightarrow> money \<Rightarrow> instant \<Rightarrow> outcome \<times> state" where
  "soccer_vs_bot = vs_bot Soccer"

definition bowling_vs_bot :: "state \<Rightarrow> user_id \<Rightarrow> money \<Rightarrow> instant \<Rightarrow> outcome \<times> state" where
  "bowling_vs_bot = vs_bot Bowling"

text \<open>
  What a creator hands out: the fields of the id it reports, or nothing when it creates
  no session; and whether a reported id is a key of the store it leaves.
\<close>

definition created_fields :: "outcome \<times> state \<Rightarrow> string list option" where
  "created_fields r = (case fst r of Created cid \<Rightarrow> Some (split_us cid) | _ \<Rightarrow> None)"

definition stored_if_created :: "outcome \<times> state \<Rightarrow> bool" where
  "stored_if_created r =
     (case fst r of Created cid \<Rightarrow> map_of (pending_pvp (snd r)) cid \<noteq> None | _ \<Rightarrow> True)"

text \<open>
  \<^verbatim>\<open>accept_generic_v2_pvp\<close>: the second player joins a PvP series and pays.  (The source
  has no method that creates such a series: \<^verbatim>\<open>start_generic_v2_pvp\<close> is called but not
  defined.)
\<close>

definition accept_generic_v2_pvp :: "state \<Rightarrow> string \<Rightarrow> user_id \<Rightarrow> outcome \<times> state" where
  "accept_generic_v2_pvp st cid user_id =
     (case map_of (pending_pvp st) cid of
        None \<Rightarrow> (Rejected, st)
      | Some ch \<Rightarrow>
          (case challenger ch of
             None \<Rightarrow> (Raised KeyError, st)
           | Some c \<Rightarrow>
               if c = user_id then (Rejected, st)
               else (case wager ch of
                       None \<Rightarrow> (Raised KeyError, st)
                     | Some w \<Rightarrow>
                         if balance st user_id < w then (Rejected, st)
                         else
                           let st1 = credit st user_id (- w);
                               ch1 = ch\<lparr>opponent := Some user_id, p2_deducted := True\<rparr>
                           in (Accepted, set_challenge st1 cid ch1))))"

subsection \<open>Rounds and settlement\<close>

datatype side = P | B

text \<open>
  The round winner, as both loops compute it: mode \<open>normal\<close> lets the higher total win,
  any other mode the lower one; equal totals give no winner.
\<close>

definition round_winner :: "string \<Rightarrow> int \<Rightarrow> int \<Rightarrow> side option" where
  "round_winner mode' p_tot b_tot =
     (if mode' = ''normal''
      then (if p_tot > b_tot then Some P else if b_tot > p_tot then Some B else None)
      else (if p_tot < b_tot then Some P else if b_tot < p_tot then Some B else None))"

definition roll_score :: "emoji \<Rightarrow> int \<Rightarrow> int" where
  "roll_score e val =
     (if e \<in> {Soccer, Basketball} then (if val \<ge> 4 then 1 else 0) else val)"

text \<open>
  The \<^verbatim>\<open>v2_send_emoji_\<close> branch of \<^verbatim>\<open>button_callback\<close>, first half: the player's dice are
  sent and their scores appended to \<^verbatim>\<open>p_rolls\<close>.  \<open>p_dice i\<close> is the value Telegram
  gives the \<open>i\<close>-th die.  The handler then sleeps; other handlers may run meanwhile.
\<close>

definition v2_send_emoji_player ::
  "state \<Rightarrow> string \<Rightarrow> user_id \<Rightarrow> (nat \<Rightarrow> int)
     \<Rightarrow> (outcome + emoji \<times> int \<times> challenge) \<times> state" where
  "v2_send_emoji_player st cid user_id p_dice =
     (case map_of (pending_pvp st) cid of
        None \<Rightarrow> (Inl Rejected, st)
      | Some ch \<Rightarrow>
          if player ch \<noteq> Some user_id then (Inl Rejected, st)
          else (case emoji ch of
                  None \<Rightarrow> (Inl (Raised KeyError), st)
                | Some e \<Rightarrow>
                    let num_rolls = get_or (rolls ch) 1
                    in (case p_rolls ch of
                          None \<Rightarrow> (Inl (Raised KeyError), st)
                        | Some pr \<Rightarrow>
                            let pr1 = pr @ map (\<lambda>i. roll_score e (p_dice i)) [0..<nat num_rolls];
                                ch1 = ch\<lparr>p_rolls := Some pr1\<rparr>
                            in (Inr (e, sum_list pr1, ch1), set_challenge st cid ch1))))"

text \<open>
  Second half: the bot rolls (as many dice as the dict \<open>held\<close>, which the handler
  still holds, says), the session is read again from the store, the round is decided, and
  the series either ends (payout \<^verbatim>\<open>w * 1.95\<close> to a winning player, the wager to the
  house otherwise, session deleted) or goes on with a cashout offer.
\<close>

definition v2_send_emoji_bot ::
  "state \<Rightarrow> string \<Rightarrow> user_id \<Rightarrow> emoji \<Rightarrow> int \<Rightarrow> challenge \<Rightarrow> (nat \<Rightarrow> int)
     \<Rightarrow> outcome \<times> state" where
  "v2_send_emoji_bot st cid user_id e p_tot held b_dice =
     (case rolls held of
        None \<Rightarrow> (Raised KeyError, st)
      | Some r \<Rightarrow>
     let b_tot = sum_list (map (\<lambda>i. roll_score e (b_dice i)) [0..<nat r])
     in
     (case map_of (pending_pvp st) cid of
        None \<Rightarrow> (Silent, st)
      | Some ch \<Rightarrow>
     (case (case round_winner (get_or (mode ch) ''normal'') p_tot b_tot of
              None \<Rightarrow> Inr ch
            | Some P \<Rightarrow> (case p_pts ch of None \<Rightarrow> Inl KeyError
                                        | Some n \<Rightarrow> Inr (ch\<lparr>p_pts := Some (n + 1)\<rparr>))
            | Some B \<Rightarrow> (case b_pts ch of None \<Rightarrow> Inl KeyError
                                        | Some n \<Rightarrow> Inr (ch\<lparr>b_pts := Some (n + 1)\<rparr>))) of
        Inl err \<Rightarrow> (Raised err, st)
      | Inr ch1 \<Rightarrow>
     let st1 = set_challenge st cid ch1;
         target_pts = get_or (pts ch1) 1
     in
     (case p_pts ch1 of
        None \<Rightarrow> (Raised KeyError, st1)
      | Some pp \<Rightarrow>
          if pp \<ge> target_pts then
            (case wager ch1 of
               None \<Rightarrow> (Raised KeyError, st1)
             | Some w \<Rightarrow>
                 let payout = w * (195 / 100);
                     st2 = credit st1 user_id payout;
                     st3 = update_house_balance st2 (- (payout - w))
                 in (SeriesWon, del_challenge st3 cid))
          else
            (case b_pts ch1 of
               None \<Rightarrow> (Raised KeyError, st1)
             | Some bp \<Rightarrow>
                 if bp \<ge> target_pts then
                   (case wager ch1 of
                      None \<Rightarrow> (Raised KeyError, st1)
                    | Some w \<Rightarrow> (SeriesLost, del_challenge (update_house_balance st1 w) cid))
                 else
                   let st2 = set_challenge st1 cid (ch1\<lparr>p_rolls := Some []\<rparr>)
                   in (case pts ch1 of
                         None \<Rightarrow> (Raised KeyError, st2)
                       | Some t \<Rightarrow>
                           (case wager ch1 of
                              None \<Rightarrow> (Raised KeyError, st2)
                            | Some w \<Rightarrow> (NextRound (calculate_cashout pp bp t w), st2))))))))"

definition v2_send_emoji ::
  "state \<Rightarrow> string \<Rightarrow> user_id \<Rightarrow> (nat \<Rightarrow> int) \<Rightarrow> (nat \<Rightarrow> int) \<Rightarrow> outcome \<times> state" where
  "v2_send_emoji st cid user_id p_dice b_dice =
     (case v2_send_emoji_player st cid user_id p_dice of
        (Inl out, st1) \<Rightarrow> (out, st1)
      | (Inr (e, p_tot, held), st1) \<Rightarrow> v2_send_emoji_bot st1 cid user_id e p_tot held b_dice)"


text \<open>
  \<^verbatim>\<open>generic_v2_pvp_loop\<close>, the head of its outer loop: while neither player has the
  target, a round starts with the challenger to roll first; once one has it, the series
  is settled (lines 4615 to 4632): the winner's balance grows by the wager and the
  session is deleted.  The payout \<^verbatim>\<open>wager * 1.95\<close> computed there is used nowhere.
\<close>

definition generic_v2_pvp_loop_head :: "state \<Rightarrow> string \<Rightarrow> instant \<Rightarrow> outcome \<times> state" where
  "generic_v2_pvp_loop_head st cid now =
     (case map_of (pending_pvp st) cid of
        None \<Rightarrow> (Silent, st)
      | Some ch \<Rightarrow>
     (case (challenger ch, opponent ch, p1_pts ch, p2_pts ch, pts ch) of
        (Some p1_id, Some p2_id, Some s1, Some s2, Some t) \<Rightarrow>
          if s1 < t \<and> s2 < t then
            (RoundStarted,
             set_challenge st cid
               (ch\<lparr>p1_rolls := Some [], p2_rolls := Some [], waiting_p1 := True,
                    waiting_p2 := False, emoji_wait := Some now\<rparr>))
          else
            (case wager ch of
               None \<Rightarrow> (Raised KeyError, st)
             | Some w \<Rightarrow>
                 let winner_id = (if s1 \<ge> t then p1_id else p2_id);
                     st1 = credit st winner_id w
                 in (SeriesSettled winner_id, del_challenge st1 cid))
      | (Some p1_id, None, _, _, _) \<Rightarrow> (Raised DatabaseError, st)
      | _ \<Rightarrow> (Raised KeyError, st)))"

text \<open>The end of a round of the same loop, once both players have all their rolls.\<close>

definition generic_v2_pvp_loop_round :: "state \<Rightarrow> string \<Rightarrow> instant \<Rightarrow> outcome \<times> state" where
  "generic_v2_pvp_loop_round st cid now =
     (case map_of (pending_pvp st) cid of
        None \<Rightarrow> (Silent, st)
      | Some ch \<Rightarrow>
     (case (p1_rolls ch, p2_rolls ch, mode ch, p1_pts ch, p2_pts ch) of
        (Some r1, Some r2, Some m, Some s1, Some s2) \<Rightarrow>
          let ch1 = (case round_winner m (sum_list r1) (sum_list r2) of
                       None \<Rightarrow> ch
                     | Some P \<Rightarrow> ch\<lparr>p1_pts := Some (s1 + 1)\<rparr>
                     | Some B \<Rightarrow> ch\<lparr>p2_pts := Some (s2 + 1)\<rparr>)
          in generic_v2_pvp_loop_head (set_challenge st cid ch1) cid now
      | _ \<Rightarrow> (Raised KeyError, st)))"

subsection \<open>Cashout and cancellation\<close>



subsection \<open>The expiration sweeper\<close>

text \<open>
  \<^verbatim>\<open>check_expired_challenges\<close>.  One pass of its first loop takes a session of the
  snapshot, the list of ids collected so far and the state; an exception ends the whole
  sweep (the outer \<^verbatim>\<open>except\<close> only logs it).  The chat messages are not modelled.

  A timed-out bot series: automatic cashout at the cashout prompt, a refund when the
  player has finished the round's rolls, nothing otherwise.
\<close>

definition sweep_v2_bot ::
  "string \<Rightarrow> challenge \<Rightarrow> money \<Rightarrow> string list \<Rightarrow> state \<Rightarrow> py_error + string list \<times> state" where
  "sweep_v2_bot challenge_id ch wager0 expired st =
     (case player ch of
        None \<Rightarrow> Inl KeyError
      | Some pid \<Rightarrow>
          if waiting_for_cashout ch then
            (case (p_pts ch, b_pts ch, pts ch, wager ch) of
               (Some pp, Some bp, Some t, Some w) \<Rightarrow>
                 let cashout_val = calculate_cashout pp bp t w;
                     st1 = credit st pid cashout_val;
                     st2 = update_house_balance st1 (- (cashout_val - w))
                 in Inr (expired @ [challenge_id], st2)
             | _ \<Rightarrow> Inl KeyError)
          else if wager_deducted ch then
            (if get_or (cur_rolls ch) 0 \<ge> get_or (rolls ch) 0
             then Inr (expired, credit st pid wager0)
             else Inr (expired, st))
          else Inr (expired, st))"

text \<open>A timed-out PvP series: the player who was not awaited gets the wager back.\<close>

definition sweep_v2_pvp ::
  "challenge \<Rightarrow> money \<Rightarrow> string list \<Rightarrow> state \<Rightarrow> py_error + string list \<times> state" where
  "sweep_v2_pvp ch wager0 expired st =
     (case challenger ch of
        None \<Rightarrow> Inl KeyError
      | Some p1 \<Rightarrow>
          if waiting_p1 ch then
            (if p2_deducted ch
             then (case opponent ch of
                     None \<Rightarrow> Inl DatabaseError
                   | Some p2 \<Rightarrow> Inr (expired, credit st p2 wager0))
             else Inr (expired, st))
          else if waiting_p2 ch then
            (if p1_deducted ch then Inr (expired, credit st p1 wager0) else Inr (expired, st))
          else Inr (expired, st))"

text \<open>
  The sessions of the older single-round games: an open challenge nobody joined is
  refunded; a joined one forfeits the awaited player's wager to the house and refunds
  the other player.
\<close>

definition sweep_legacy ::
  "instant \<Rightarrow> rat \<Rightarrow> string \<Rightarrow> challenge \<Rightarrow> money \<Rightarrow> string list \<Rightarrow> state
     \<Rightarrow> py_error + string list \<times> state" where
  "sweep_legacy current_time expiration_limit challenge_id ch wager0 expired st =
     (if created_at ch \<noteq> None \<and> opponent ch = None then
        (if current_time - the (created_at ch) > expiration_limit then
           (case challenger ch of
              None \<Rightarrow> Inl KeyError
            | Some challenger_id \<Rightarrow>
                Inr (expired @ [challenge_id], credit st challenger_id wager0))
         else Inr (expired, st))
      else if waiting_for_challenger_emoji ch \<and> emoji_wait_started ch \<noteq> None then
        (if current_time - the (emoji_wait_started ch) > expiration_limit then
           (case challenger ch of
              None \<Rightarrow> Inl KeyError
            | Some challenger_id \<Rightarrow>
                (case opponent ch of
                   None \<Rightarrow> Inl DatabaseError
                 | Some acceptor_id \<Rightarrow>
                     Inr (expired @ [challenge_id],
                          credit (update_house_balance st wager0) acceptor_id wager0)))
         else Inr (expired, st))
      else if waiting_for_emoji ch \<and> emoji_wait_started ch \<noteq> None then
        (if current_time - the (emoji_wait_started ch) > expiration_limit then
           (if opponent ch \<noteq> None \<and> opponent ch \<noteq> Some 0 then
              (case challenger ch of
                 None \<Rightarrow> Inl KeyError
               | Some challenger_id \<Rightarrow>
                   Inr (expired @ [challenge_id],
                        credit (update_house_balance st wager0) challenger_id wager0))
            else if player ch \<noteq> None \<and> player ch \<noteq> Some 0 then
              Inr (expired @ [challenge_id], update_house_balance st wager0)
            else Inr (expired @ [challenge_id], st))
         else Inr (expired, st))
      else Inr (expired, st))"

definition sweep_one ::
  "instant \<Rightarrow> rat \<Rightarrow> string \<Rightarrow> challenge \<Rightarrow> string list \<Rightarrow> state
     \<Rightarrow> py_error + string list \<times> state" where
  "sweep_one current_time expiration_limit challenge_id ch expired st =
     (let wager0 = get_or (wager ch) 0
      in if startswith challenge_id ''v2_bot_'' \<or> startswith challenge_id ''v2_pvp_'' then
           (case (case emoji_wait ch of Some t \<Rightarrow> Some t | None \<Rightarrow> created_at ch) of
              None \<Rightarrow> Inr (expired, st)
            | Some wait_started \<Rightarrow>
                let time_diff = current_time - wait_started;
                    limit = (if get_or (cur_rolls ch) 0 > 0 \<or> get_or (p_pts ch) 0 > 0
                                \<or> get_or (b_pts ch) 0 > 0
                             then 900 else expiration_limit)
                in if time_diff > limit then
                     (if startswith challenge_id ''v2_bot_''
                      then sweep_v2_bot challenge_id ch wager0 (expired @ [challenge_id]) st
                      else sweep_v2_pvp ch wager0 (expired @ [challenge_id]) st)
                   else Inr (expired, st))
         else sweep_legacy current_time expiration_limit challenge_id ch wager0 expired st)"

fun sweep_loop ::
  "instant \<Rightarrow> rat \<Rightarrow> (string \<times> challenge) list \<Rightarrow> string list \<Rightarrow> state
     \<Rightarrow> py_error option \<times> string list \<times> state" where
  "sweep_loop current_time expiration_limit [] expired st = (None, expired, st)"
| "sweep_loop current_time expiration_limit ((challenge_id, ch) # items) expired st =
     (case sweep_one current_time expiration_limit challenge_id ch expired st of
        Inl err \<Rightarrow> (Some err, expired, st)
      | Inr (expired1, st1) \<Rightarrow> sweep_loop current_time expiration_limit items expired1 st1)"

text \<open>
  The second loop: \<^verbatim>\<open>del self.pending_pvp[challenge_id]\<close> for each collected id, in
  order; deleting an id that is no longer there raises \<^verbatim>\<open>KeyError\<close>.
\<close>

fun remove_expired ::
  "string list \<Rightarrow> (string \<times> challenge) list \<Rightarrow> py_error option \<times> (string \<times> challenge) list" where
  "remove_expired [] pend = (None, pend)"
| "remove_expired (challenge_id # ids) pend =
     (if map_of pend challenge_id = None then (Some KeyError, pend)
      else remove_expired ids (AList.delete challenge_id pend))"

text \<open>The ids one sweep collects for removal.\<close>

definition expired_challenges :: "state \<Rightarrow> instant \<Rightarrow> string list" where
  "expired_challenges st current_time =
     fst (snd (sweep_loop current_time (expiration_seconds st) (pending_pvp st) [] st))"

definition check_expired_challenges :: "state \<Rightarrow> instant \<Rightarrow> py_error option \<times> state" where
  "check_expired_challenges st current_time =
     (case sweep_loop current_time (expiration_seconds st) (pending_pvp st) [] st of
        (Some err, expired, st1) \<Rightarrow> (Some err, st1)
      | (None, expired, st1) \<Rightarrow>
          (case remove_expired expired (pending_pvp st1) of
             (err, pend) \<Rightarrow> (err, st1\<lparr>pending_pvp := pend\<rparr>)))"

subsection \<open>Concrete sessions\<close>

text \<open>
  States reached by running the handlers above from an empty store in which every user
  holds 100 and the house 10000, with the default window of 300 seconds.
\<close>

definition fresh :: state where
  "fresh = \<lparr>pending_pvp = [], balance = (\<lambda>_. 100), house_balance = 10000,
            expiration_seconds = 300\<rparr>"

text \<open>Scenario A: user 1 starts a dice series against the bot, one roll, one point.\<close>

definition scenario_a :: state where
  "scenario_a = snd (start_generic_v2_bot fresh 1 ''dice'' 10 1 ''normal'' 1 1000)"



text \<open>
  Scenario D: user 1 opens a darts challenge for 10, user 2 joins ten seconds later; the
  challenge waits for user 1 to roll.
\<close>

definition scenario_d :: state where
  "scenario_d =
     snd (accept_emoji_pvp_challenge
            (snd (create_emoji_pvp_challenge fresh 1 10 ''darts'' Darts 1000))
            ''darts_open_1_1000'' 2 1010)"

text \<open>
  The cashout prompt: user 1 plays a dice series to two points for 10 and wins the first
  round; the handler offers the next round and the cashout.
\<close>

definition cashout_prompt :: state where
  "cashout_prompt =
     snd (v2_send_emoji
            (snd (start_generic_v2_bot fresh 1 ''dice'' 10 1 ''normal'' 2 1000))
            ''v2_bot_dice_1_1000'' 1 (\<lambda>_. 6) (\<lambda>_. 3))"

text \<open>The same, and an open darts challenge of user 2 for 5 behind it.\<close>

definition prompt_and_open :: state where
  "prompt_and_open = snd (create_emoji_pvp_challenge cashout_prompt 2 5 ''darts'' Darts 1001)"

subsection \<open>Stores the handlers leave\<close>

text \<open>
  No line of the source sets \<^verbatim>\<open>waiting_for_cashout\<close> to a true value (it is read by the
  sweeper and cleared on a roll), and every creator gives a session the keys the sweeper
  reads by subscript: \<^verbatim>\<open>player\<close> for a bot series, \<^verbatim>\<open>challenger\<close> for a challenge, which
  has its creation time while it is open and its \<^verbatim>\<open>opponent\<close> once it is joined.
\<close>

definition session_keys_ok :: "string \<Rightarrow> challenge \<Rightarrow> bool" where
  "session_keys_ok cid ch =
     (if startswith cid ''v2_bot_'' then player ch \<noteq> None \<and> \<not> waiting_for_cashout ch
      else challenger ch \<noteq> None
           \<and> (if opponent ch = None then created_at ch \<noteq> None \<and> \<not> p2_deducted ch
              else True))"

definition store_ok :: "state \<Rightarrow> bool" where
  "store_ok st =
     (distinct (map fst (pending_pvp st))
      \<and> list_all (\<lambda>(cid, ch). session_keys_ok cid ch) (pending_pvp st))"

section \<open>Properties of the cashout valuator\<close>

lemma floor_rat_numeral_div [simp]:
  "\<lfloor>numeral a / numeral b :: rat\<rfloor> = numeral a div numeral b"
  using floor_divide_of_int_eq [of "numeral a" "numeral b", where ?'a = rat] by simp

lemma floor_rat_one_div [simp]:
  "\<lfloor>1 / numeral b :: rat\<rfloor> = 1 div numeral b"
  using floor_divide_of_int_eq [of 1 "numeral b", where ?'a = rat] by simp

lemma floor_le_round_half_even: "\<lfloor>x\<rfloor> \<le> round_half_even x"
  by (simp add: round_half_even_def Let_def)

lemma round_half_even_le_floor: "round_half_even x \<le> \<lfloor>x\<rfloor> + 1"
  by (simp add: round_half_even_def Let_def)

lemma round_half_even_of_int [simp]: "round_half_even (of_int n) = n"
  by (simp add: round_half_even_def Let_def)

lemma round_half_even_mono:
  assumes "x \<le> y"
  shows "round_half_even x \<le> round_half_even y"
proof (cases "\<lfloor>x\<rfloor> < \<lfloor>y\<rfloor>")
  case True
  have "round_half_even x \<le> \<lfloor>x\<rfloor> + 1" by (rule round_half_even_le_floor)
  also have "\<dots> \<le> \<lfloor>y\<rfloor>" using True by simp
  also have "\<dots> \<le> round_half_even y" by (rule floor_le_round_half_even)
  finally show ?thesis .
next
  case False
  moreover have "\<lfloor>x\<rfloor> \<le> \<lfloor>y\<rfloor>" using assms by (rule floor_mono)
  ultimately have eq: "\<lfloor>x\<rfloor> = \<lfloor>y\<rfloor>" by simp
  have "x - of_int \<lfloor>y\<rfloor> \<le> y - of_int \<lfloor>y\<rfloor>" using assms by simp
  then show ?thesis
    by (auto simp add: round_half_even_def Let_def eq)
qed

lemma py_round2_mono: "x \<le> y \<Longrightarrow> py_round2 x \<le> py_round2 y"
  by (simp add: py_round2_def round_half_even_mono divide_right_mono)

lemma py_round2_zero [simp]: "py_round2 0 = 0"
  by (simp add: py_round2_def round_half_even_def)



lemma calculate_cashout_table:
  "calculate_cashout p b t w =
     (if p \<ge> t then w * 2 else if b \<ge> t then 0
      else max 0 (py_round2 (table_prob (t - p) (t - b) * (w * 2) * (95 / 100))))"
  by (simp add: calculate_cashout_def table_prob_def Let_def)

lemma table_prob_bounds: "0 \<le> table_prob a b \<and> table_prob a b \<le> 1"
  by (simp add: table_prob_def)

lemma table_prob_mono:
  assumes "1 \<le> a1" "a1 \<le> 3" "1 \<le> b1" "b1 \<le> 3" "1 \<le> a2" "a2 \<le> 3" "1 \<le> b2" "b2 \<le> 3"
    and "b1 - a1 < b2 - a2"
  shows "table_prob a1 b1 \<le> table_prob a2 b2"
proof -
  have "a1 = 1 \<or> a1 = 2 \<or> a1 = 3" "b1 = 1 \<or> b1 = 2 \<or> b1 = 3"
       "a2 = 1 \<or> a2 = 2 \<or> a2 = 3" "b2 = 1 \<or> b2 = 2 \<or> b2 = 3"
    using assms by auto
  then show ?thesis using assms(9)
    by (elim disjE; simp add: table_prob_def)
qed

lemma table_prob_spec:
  assumes "1 \<le> a" "a \<le> 3" "1 \<le> b" "b \<le> 3"
  shows "table_prob a b = spec_win_prob (nat a) (nat b)"
proof -
  have "a = 1 \<or> a = 2 \<or> a = 3" "b = 1 \<or> b = 2 \<or> b = 3"
    using assms by auto
  then show ?thesis
    by (elim disjE; simp add: table_prob_def numeral_eq_Suc)
qed


text \<open>
  Claim C8, as the code has it.  For a target of at most 3 (the targets the table
  covers) and any wager, a state with a strictly smaller difference of points never has
  the larger cashout value.
\<close>

theorem cashout_monotone_small_targets:
  assumes "t \<le> 3"
    and "0 \<le> p1" "p1 < t" "0 \<le> b1" "b1 < t"
    and "0 \<le> p2" "p2 < t" "0 \<le> b2" "b2 < t"
    and "p1 - b1 < p2 - b2"
  shows "calculate_cashout p1 b1 t w \<le> calculate_cashout p2 b2 t w"
proof -
  let ?v1 = "table_prob (t - p1) (t - b1) * (w * 2) * (95 / 100)"
  let ?v2 = "table_prob (t - p2) (t - b2) * (w * 2) * (95 / 100)"
  have tp: "table_prob (t - p1) (t - b1)
              \<le> table_prob (t - p2) (t - b2)"
    using assms by (intro table_prob_mono) auto
  have cc: "calculate_cashout p1 b1 t w = max 0 (py_round2 ?v1)"
           "calculate_cashout p2 b2 t w = max 0 (py_round2 ?v2)"
    using assms by (simp_all add: calculate_cashout_table)
  show ?thesis
  proof (cases "0 \<le> w")
    case True
    then have "table_prob (t - p1) (t - b1) * (w * 2)
                 \<le> table_prob (t - p2) (t - b2) * (w * 2)"
      using tp by (intro mult_right_mono) auto
    then have "?v1 \<le> ?v2" by (rule mult_right_mono) simp
    then have "py_round2 ?v1 \<le> py_round2 ?v2" by (rule py_round2_mono)
    then show ?thesis unfolding cc by simp
  next
    case False
    have neg: "table_prob a b * (w * 2) * (95 / 100) \<le> 0" for a b
      using table_prob_bounds [of a b] False by (simp add: mult_le_0_iff)
    have r: "py_round2 (table_prob a b * (w * 2) * (95 / 100)) \<le> 0" for a b
      using py_round2_mono [OF neg [of a b]] by simp
    have "max 0 (py_round2 ?v1) = 0" "max 0 (py_round2 ?v2) = 0"
      by (rule max_absorb1, rule r)+
    then show ?thesis unfolding cc by simp
  qed
qed

theorem cashout_monotone_small_targets_witness:
  "calculate_cashout 0 2 3 10 \<le> calculate_cashout 1 2 3 10"
  using cashout_monotone_small_targets [of 3 0 2 1 2 10] by simp

text \<open>
  With target 4 the order breaks: 0 to 3 falls outside the table and is valued at one
  half (9.50), 1 to 3 is in the table at one eighth (2.38).
\<close>

theorem cashout_monotone_counterexample:
  "(0::int) - 3 < 1 - 3 \<and> \<not> calculate_cashout 0 3 4 10 \<le> calculate_cashout 1 3 4 10"
  by (simp add: calculate_cashout_def py_round2_def round_half_even_def Let_def)




section \<open>The ledger and the store under the handlers\<close>

lemma set_challenge_simps [simp]:
  "pending_pvp (set_challenge st cid ch) = AList.update cid ch (pending_pvp st)"
  "balance (set_challenge st cid ch) = balance st"
  "house_balance (set_challenge st cid ch) = house_balance st"
  "expiration_seconds (set_challenge st cid ch) = expiration_seconds st"
  by (simp_all add: set_challenge_def)

lemma del_challenge_simps [simp]:
  "pending_pvp (del_challenge st cid) = AList.delete cid (pending_pvp st)"
  "balance (del_challenge st cid) = balance st"
  "house_balance (del_challenge st cid) = house_balance st"
  "expiration_seconds (del_challenge st cid) = expiration_seconds st"
  by (simp_all add: del_challenge_def)

lemma credit_simps [simp]:
  "pending_pvp (credit st uid a) = pending_pvp st"
  "balance (credit st uid a) = (balance st)(uid := balance st uid + a)"
  "house_balance (credit st uid a) = house_balance st"
  "expiration_seconds (credit st uid a) = expiration_seconds st"
  by (simp_all add: credit_def)

lemma update_house_balance_simps [simp]:
  "pending_pvp (update_house_balance st a) = pending_pvp st"
  "balance (update_house_balance st a) = balance st"
  "house_balance (update_house_balance st a) = house_balance st + a"
  "expiration_seconds (update_house_balance st a) = expiration_seconds st"
  by (simp_all add: update_house_balance_def)

lemma map_of_update_same [simp]: "map_of (AList.update k v al) k = Some v"
  by (simp add: update_conv')

lemma map_of_delete_same [simp]: "map_of (AList.delete k al) k = None"
  by (simp add: delete_conv')

section \<open>Settlement of a series\<close>

lemma v2_send_emoji_bot_settles:
  assumes "map_of (pending_pvp st) cid = Some ch" and "wager ch = Some w"
    and "v2_send_emoji_bot st cid uid e p_tot held b_dice = (out, st')"
    and "out = SeriesWon \<or> out = SeriesLost"
  shows "(out = SeriesWon \<longrightarrow>
            balance st' = (balance st)(uid := balance st uid + w * (195 / 100))
          \<and> house_balance st' = house_balance st - (w * (195 / 100) - w))
       \<and> (out = SeriesLost \<longrightarrow>
            balance st' = balance st \<and> house_balance st' = house_balance st + w)
       \<and> map_of (pending_pvp st') cid = None"
  using assms
  unfolding v2_send_emoji_bot_def Let_def
  by (auto split: option.splits sum.splits side.splits if_splits)

lemma v2_send_emoji_player_refusals:
  "v2_send_emoji_player st cid uid p_dice = (Inl out, st')
     \<Longrightarrow> (out = Rejected \<or> out = Raised KeyError) \<and> st' = st"
  unfolding v2_send_emoji_player_def Let_def
  by (auto split: option.splits if_splits)

text \<open>
  Claim C1, as the code has it.  When the send-emoji handler ends a bot series, a winning
  player is credited \<open>wager * 1.95\<close> and the house balance goes down by the player's
  profit \<open>wager * 1.95 - wager\<close>; when the bot wins, no balance changes and the house
  balance goes up by the wager; either way the session leaves the store.
\<close>

theorem bot_series_settlement:
  assumes "map_of (pending_pvp st) cid = Some ch" and "wager ch = Some w"
    and "v2_send_emoji st cid uid p_dice b_dice = (out, st')"
    and "out = SeriesWon \<or> out = SeriesLost"
  shows "(out = SeriesWon \<longrightarrow>
            balance st' = (balance st)(uid := balance st uid + w * (195 / 100))
          \<and> house_balance st' = house_balance st - (w * (195 / 100) - w))
       \<and> (out = SeriesLost \<longrightarrow>
            balance st' = balance st \<and> house_balance st' = house_balance st + w)
       \<and> map_of (pending_pvp st') cid = None"
proof -
  from assms(3,4) obtain e p_tot held st1 where
    ph: "v2_send_emoji_player st cid uid p_dice = (Inr (e, p_tot, held), st1)"
    and bot: "v2_send_emoji_bot st1 cid uid e p_tot held b_dice = (out, st')"
    unfolding v2_send_emoji_def
    by (auto split: prod.splits sum.splits dest: v2_send_emoji_player_refusals)
  from ph assms(1) obtain pr where
    st1: "st1 = set_challenge st cid (ch\<lparr>p_rolls := Some pr\<rparr>)"
    unfolding v2_send_emoji_player_def Let_def
    by (auto split: option.splits if_splits)
  have m: "map_of (pending_pvp st1) cid = Some (ch\<lparr>p_rolls := Some pr\<rparr>)"
    and w: "wager (ch\<lparr>p_rolls := Some pr\<rparr>) = Some w"
    using assms(2) by (simp_all add: st1)
  from v2_send_emoji_bot_settles [OF m w bot assms(4)]
  show ?thesis by (simp add: st1)
qed

theorem bot_series_settlement_witness:
  "balance (snd (v2_send_emoji scenario_a ''v2_bot_dice_1_1000'' 1 (\<lambda>_. 6) (\<lambda>_. 3))) 1
     = balance scenario_a 1 + 39 / 2
   \<and> house_balance (snd (v2_send_emoji scenario_a ''v2_bot_dice_1_1000'' 1 (\<lambda>_. 6) (\<lambda>_. 3)))
     = house_balance scenario_a - 19 / 2
   \<and> map_of (pending_pvp (snd (v2_send_emoji scenario_a ''v2_bot_dice_1_1000'' 1
                                  (\<lambda>_. 6) (\<lambda>_. 3)))) ''v2_bot_dice_1_1000'' = None"
proof -
  let ?cid = "''v2_bot_dice_1_1000''"
  let ?ch = "the (map_of (pending_pvp scenario_a) ?cid)"
  let ?r = "v2_send_emoji scenario_a ?cid 1 (\<lambda>_. 6) (\<lambda>_. 3)"
  have stored: "map_of (pending_pvp scenario_a) ?cid = Some ?ch"
    by code_simp
  have w: "wager ?ch = Some 10"
    by code_simp
  have "fst ?r = SeriesWon"
    by code_simp
  then have run: "?r = (SeriesWon, snd ?r)"
    by (simp add: prod_eq_iff)
  from bot_series_settlement [OF stored w run] show ?thesis
    by simp
qed

text \<open>
  Scenario A on the code: the player is paid 19.50, and the house balance moves by
  \<open>- 9.50\<close>, the player's profit, not by \<open>+ 0.50\<close>.
\<close>

theorem scenario_a_house_counterexample:
  "fst (v2_send_emoji scenario_a ''v2_bot_dice_1_1000'' 1 (\<lambda>_. 6) (\<lambda>_. 3)) = SeriesWon
   \<and> house_balance (snd (v2_send_emoji scenario_a ''v2_bot_dice_1_1000'' 1 (\<lambda>_. 6) (\<lambda>_. 3)))
       - house_balance scenario_a = - (19 / 2)
   \<and> house_balance (snd (v2_send_emoji scenario_a ''v2_bot_dice_1_1000'' 1 (\<lambda>_. 6) (\<lambda>_. 3)))
       - house_balance scenario_a \<noteq> 1 / 2"
  by code_simp

text \<open>
  The PvP loop settles differently: the winner's balance grows by the wager alone and the
  house balance is not touched.
\<close>

lemma pvp_settlement_credits_the_wager:
  assumes "map_of (pending_pvp st) cid = Some ch"
    and "challenger ch = Some u1" "opponent ch = Some u2"
    and "p1_pts ch = Some s1" "p2_pts ch = Some s2" "pts ch = Some t" "wager ch = Some w"
    and "t \<le> s1 \<or> t \<le> s2"
  shows "generic_v2_pvp_loop_head st cid now
           = (SeriesSettled (if t \<le> s1 then u1 else u2),
              del_challenge (credit st (if t \<le> s1 then u1 else u2) w) cid)"
  using assms by (auto simp add: generic_v2_pvp_loop_head_def Let_def)

section \<open>The cashout handler\<close>




section \<open>Session ids\<close>

lemma digit_char_is_digit: "d < 10 \<Longrightarrow> digit_char d \<noteq> CHR ''_''"
proof -
  assume "d < 10"
  then have "d = 0 \<or> d = 1 \<or> d = 2 \<or> d = 3 \<or> d = 4 \<or> d = 5 \<or> d = 6 \<or> d = 7 \<or> d = 8 \<or> d = 9"
    by arith
  then show ?thesis by (elim disjE; simp add: digit_char_def)
qed

lemma str_nat_no_underscore: "CHR ''_'' \<notin> set (str_nat n)"
proof (induction n rule: str_nat.induct)
  case (1 n)
  show ?case
  proof (cases "n < 10")
    case True
    then show ?thesis
      using digit_char_is_digit [of n] by (subst str_nat.simps) auto
  next
    case False
    have "n mod 10 < 10" by simp
    then have "digit_char (n mod 10) \<noteq> CHR ''_''" by (rule digit_char_is_digit)
    then show ?thesis
      using False "1.IH" by (subst str_nat.simps) auto
  qed
qed

lemma str_int_no_underscore: "CHR ''_'' \<notin> set (str_int i)"
  by (simp add: str_int_def str_nat_no_underscore)

lemma split_us_plain: "CHR ''_'' \<notin> set a \<Longrightarrow> split_us a = [a]"
  by (induction a) auto

lemma split_us_field:
  "CHR ''_'' \<notin> set a \<Longrightarrow> split_us (a @ CHR ''_'' # rest) = a # split_us rest"
  by (induction a) (auto split: list.splits)

lemma split_us_two_numbers:
  "split_us (str_int i @ CHR ''_'' # str_int j) = [str_int i, str_int j]"
  by (simp add: split_us_field split_us_plain str_int_no_underscore)

section \<open>Cancelling an open challenge\<close>


section \<open>The sweeper\<close>

text \<open>
  What the sweeper does for the sessions of the older games, for comparison: an open
  challenge past its window is refunded, and a joined challenge whose challenger does
  not roll pays the wager into the house balance and refunds the other player.
\<close>

lemma sweep_legacy_open_refund:
  assumes "created_at ch = Some c" and "opponent ch = None" and "challenger ch = Some u"
    and "current_time - c > window"
  shows "sweep_legacy current_time window cid ch w0 expired st
           = Inr (expired @ [cid], credit st u w0)"
  using assms by (simp add: sweep_legacy_def)

lemma sweep_legacy_forfeit_to_house:
  assumes "opponent ch = Some u2" and "challenger ch = Some u1"
    and "waiting_for_challenger_emoji ch" and "emoji_wait_started ch = Some c"
    and "current_time - c > window"
  shows "sweep_legacy current_time window cid ch w0 expired st
           = Inr (expired @ [cid], credit (update_house_balance st w0) u2 w0)"
  using assms by (simp add: sweep_legacy_def)

end
